theory Spec2Isabelle
  imports Complex_Main "HOL-Library.Word"
begin

section \<open>The receipt processor: data model, scoring and the two handlers\<close>

text \<open>
  The program under verification is \<^verbatim>\<open>main.go\<close>: an in-memory store of receipts
  (\<^verbatim>\<open>receipts\<close>), the handler \<^verbatim>\<open>processReceipts\<close> that binds a JSON body to a
  \<^verbatim>\<open>Receipt\<close> and stores it under a fresh id, and the handler \<^verbatim>\<open>getPoints\<close> that
  looks a receipt up and computes its points.

  Go strings are byte sequences and \<^verbatim>\<open>len\<close> counts bytes; they are modelled as
  \<^typ>\<open>string\<close>, whose characters are bytes. Go's \<^verbatim>\<open>int\<close> is taken to be 64 bits wide
  (a 64-bit platform) and is modelled as \<^typ>\<open>64 word\<close>. A run-time panic is a value of
  type \<open>panic\<close>; a handler that panics returns \<open>Inl\<close> of it.
\<close>

subsection \<open>Bytes\<close>

definition byte :: "char \<Rightarrow> nat" where
  "byte c = of_char c"

definition isDigit :: "char \<Rightarrow> bool" where
  "isDigit c = (48 \<le> byte c \<and> byte c \<le> 57)"

definition digitVal :: "char \<Rightarrow> nat" where
  "digitVal c = byte c - 48"

definition isAlnum :: "char \<Rightarrow> bool" where
  "isAlnum c = ((97 \<le> byte c \<and> byte c \<le> 122) \<or> (65 \<le> byte c \<and> byte c \<le> 90) \<or> isDigit c)"

text \<open>\<^verbatim>\<open>lower(c)\<close> of package strconv is \<^verbatim>\<open>c | ('x' - 'X')\<close>: it sets bit 5.\<close>

definition lower :: "char \<Rightarrow> char" where
  "lower c = (if (byte c div 32) mod 2 = 0 then char_of (byte c + 32) else c)"

subsection \<open>\<^verbatim>\<open>regexp.MustCompile(`[^a-zA-Z0-9]+`).ReplaceAllString(s, "")\<close>\<close>

text \<open>
  Every maximal run of bytes outside \<^verbatim>\<open>[a-zA-Z0-9]\<close> is replaced by the empty string
  (a byte of a multi-byte or invalid UTF-8 sequence is never in the class), so what
  remains are the ASCII letters and digits, in order.
\<close>

definition ReplaceAllString_nonAlnum :: "string \<Rightarrow> string" where
  "ReplaceAllString_nonAlnum s = filter isAlnum s"

subsection \<open>\<^verbatim>\<open>strings.Split\<close> with a one-byte separator\<close>

fun Split :: "string \<Rightarrow> char \<Rightarrow> string list" where
  "Split [] sep = [[]]"
| "Split (c # s) sep =
     (if c = sep then [] # Split s sep
      else (case Split s sep of
              [] \<Rightarrow> [[c]]
            | seg # segs \<Rightarrow> (c # seg) # segs))"

text \<open>Indexing a slice: out of range is a run-time panic in Go.\<close>

datatype panic = IndexOutOfRange | NilPointerDereference

definition index :: "'a list \<Rightarrow> nat \<Rightarrow> panic + 'a" where
  "index xs i = (if i < length xs then Inr (xs ! i) else Inl IndexOutOfRange)"

subsection \<open>\<^verbatim>\<open>strconv.Atoi\<close>\<close>

text \<open>
  An optional sign, then one or more decimal digits and nothing else; a value outside
  the range of \<^verbatim>\<open>int\<close> is an error (\<^verbatim>\<open>ErrRange\<close>). \<open>None\<close> stands for \<^verbatim>\<open>err != nil\<close>.
\<close>

definition digitsValue :: "string \<Rightarrow> int" where
  "digitsValue ds = foldl (\<lambda>n c. n * 10 + int (digitVal c)) 0 ds"

definition Atoi :: "string \<Rightarrow> int option" where
  "Atoi s =
     (let neg = (case s of [] \<Rightarrow> False | c # _ \<Rightarrow> c = CHR ''-'');
          ds = (case s of [] \<Rightarrow> [] | c # r \<Rightarrow> if c = CHR ''+'' \<or> c = CHR ''-'' then r else s)
      in if ds \<noteq> [] \<and> list_all isDigit ds
         then (let v = (if neg then - digitsValue ds else digitsValue ds)
               in if - (2 ^ 63) \<le> v \<and> v < 2 ^ 63 then Some v else None)
         else None)"

text \<open>Go's \<^verbatim>\<open>%\<close> truncates towards zero: the result has the sign of the dividend.\<close>

definition go_rem :: "int \<Rightarrow> int \<Rightarrow> int" where
  "go_rem a b = sgn a * (\<bar>a\<bar> mod \<bar>b\<bar>)"

subsection \<open>\<^verbatim>\<open>strings.TrimSpace\<close>\<close>

text \<open>
  White space is what \<^verbatim>\<open>unicode.IsSpace\<close> accepts: the six ASCII characters, and, as
  UTF-8 byte sequences, U+0085, U+00A0, U+1680, U+2000 to U+200A, U+2028, U+2029,
  U+202F, U+205F and U+3000. \<open>spaceWidth s\<close> is the number of bytes of the white-space
  character \<open>s\<close> starts with, or 0.
\<close>

definition asciiSpace :: "char \<Rightarrow> bool" where
  "asciiSpace c = ((9 \<le> byte c \<and> byte c \<le> 13) \<or> byte c = 32)"

definition unicodeSpaces :: "nat list list" where
  "unicodeSpaces =
     [[0xC2, 0x85], [0xC2, 0xA0], [0xE1, 0x9A, 0x80],
      [0xE2, 0x80, 0x80], [0xE2, 0x80, 0x81], [0xE2, 0x80, 0x82], [0xE2, 0x80, 0x83],
      [0xE2, 0x80, 0x84], [0xE2, 0x80, 0x85], [0xE2, 0x80, 0x86], [0xE2, 0x80, 0x87],
      [0xE2, 0x80, 0x88], [0xE2, 0x80, 0x89], [0xE2, 0x80, 0x8A],
      [0xE2, 0x80, 0xA8], [0xE2, 0x80, 0xA9], [0xE2, 0x80, 0xAF],
      [0xE2, 0x81, 0x9F], [0xE3, 0x80, 0x80]]"

definition spaceWidth :: "string \<Rightarrow> nat" where
  "spaceWidth s =
     (case s of
        [] \<Rightarrow> 0
      | c # _ \<Rightarrow>
          if asciiSpace c then 1
          else (case find (\<lambda>p. take (length p) (map byte s) = p) unicodeSpaces of
                  None \<Rightarrow> 0
                | Some p \<Rightarrow> length p))"

text \<open>The same from the end of the string, on the reversed bytes.\<close>

definition spaceWidthRev :: "string \<Rightarrow> nat" where
  "spaceWidthRev r =
     (case r of
        [] \<Rightarrow> 0
      | c # _ \<Rightarrow>
          if asciiSpace c then 1
          else (case find (\<lambda>p. take (length p) (map byte r) = rev p) unicodeSpaces of
                  None \<Rightarrow> 0
                | Some p \<Rightarrow> length p))"

function trimLeft :: "string \<Rightarrow> string" where
  "trimLeft s = (if spaceWidth s = 0 then s else trimLeft (drop (spaceWidth s) s))"
  by pat_completeness auto
termination
  by (relation "measure length") (auto simp: spaceWidth_def split: list.splits)

function trimRightRev :: "string \<Rightarrow> string" where
  "trimRightRev r = (if spaceWidthRev r = 0 then r else trimRightRev (drop (spaceWidthRev r) r))"
  by pat_completeness auto
termination
  by (relation "measure length") (auto simp: spaceWidthRev_def split: list.splits)

declare trimLeft.simps [simp del] trimRightRev.simps [simp del]

definition TrimSpace :: "string \<Rightarrow> string" where
  "TrimSpace s = rev (trimRightRev (rev (trimLeft s)))"

subsection \<open>\<^verbatim>\<open>float64\<close>\<close>

text \<open>
  A finite \<^verbatim>\<open>float64\<close> is the rational number it denotes. The two zeros are one
  value here: the program compares with \<^verbatim>\<open>== 0\<close>, takes \<^verbatim>\<open>math.Mod\<close> and
  \<^verbatim>\<open>math.Ceil\<close> and converts to \<^verbatim>\<open>int\<close>, none of which tells \<^verbatim>\<open>-0\<close> from \<^verbatim>\<open>0\<close>.
\<close>

datatype float64 = Finite rat | PosInf | NegInf | NaN

fun bitLength :: "nat \<Rightarrow> nat" where
  "bitLength n = (if n = 0 then 0 else Suc (bitLength (n div 2)))"

declare bitLength.simps [simp del]

definition pow2 :: "int \<Rightarrow> rat" where
  "pow2 k = (if 0 \<le> k then 2 ^ nat k else 1 / 2 ^ nat (- k))"

definition pow10 :: "int \<Rightarrow> rat" where
  "pow10 k = (if 0 \<le> k then 10 ^ nat k else 1 / 10 ^ nat (- k))"

text \<open>For \<open>0 < a\<close>, \<open>ilog2 a\<close> is the \<open>e\<close> with \<open>2 ^ e \<le> a < 2 ^ (e + 1)\<close>.\<close>

definition ilog2 :: "rat \<Rightarrow> int" where
  "ilog2 a =
     (if 1 \<le> a then int (bitLength (nat \<lfloor>a\<rfloor>)) - 1
      else - int (bitLength (nat (\<lceil>1 / a\<rceil> - 1))))"

definition roundHalfEven :: "rat \<Rightarrow> int" where
  "roundHalfEven x =
     (let f = \<lfloor>x\<rfloor>; r = x - of_int f
      in if r < 1 / 2 then f
         else if 1 / 2 < r then f + 1
         else if even f then f else f + 1)"

text \<open>
  IEEE 754 binary64 rounding to nearest, ties to even, of an exact value: 53 bits of
  precision, subnormals below \<open>2 ^ -1022\<close>, infinity from \<open>2 ^ 1024\<close> on.
\<close>

definition roundFloat64 :: "rat \<Rightarrow> float64" where
  "roundFloat64 x =
     (if x = 0 then Finite 0
      else (let e = max (ilog2 \<bar>x\<bar>) (- 1022);
                ulp = pow2 (e - 52);
                y = of_int (roundHalfEven (\<bar>x\<bar> / ulp)) * ulp
            in if pow2 1024 \<le> y then (if 0 < x then PosInf else NegInf)
               else Finite (if 0 < x then y else - y)))"

text \<open>The product of two \<^verbatim>\<open>float64\<close> values.\<close>

fun fmul :: "float64 \<Rightarrow> float64 \<Rightarrow> float64" where
  "fmul (Finite a) (Finite b) = roundFloat64 (a * b)"
| "fmul NaN _ = NaN"
| "fmul _ NaN = NaN"
| "fmul (Finite a) PosInf = (if a = 0 then NaN else if 0 < a then PosInf else NegInf)"
| "fmul (Finite a) NegInf = (if a = 0 then NaN else if 0 < a then NegInf else PosInf)"
| "fmul PosInf (Finite b) = (if b = 0 then NaN else if 0 < b then PosInf else NegInf)"
| "fmul NegInf (Finite b) = (if b = 0 then NaN else if 0 < b then NegInf else PosInf)"
| "fmul PosInf PosInf = PosInf"
| "fmul PosInf NegInf = NegInf"
| "fmul NegInf PosInf = NegInf"
| "fmul NegInf NegInf = PosInf"

text \<open>The comparison \<^verbatim>\<open>==\<close>: \<^verbatim>\<open>NaN\<close> is equal to nothing.\<close>

fun feq :: "float64 \<Rightarrow> float64 \<Rightarrow> bool" where
  "feq (Finite a) (Finite b) = (a = b)"
| "feq PosInf PosInf = True"
| "feq NegInf NegInf = True"
| "feq _ _ = False"

definition truncInt :: "rat \<Rightarrow> int" where
  "truncInt q = (if 0 \<le> q then \<lfloor>q\<rfloor> else \<lceil>q\<rceil>)"

text \<open>
  \<^verbatim>\<open>math.Mod(x, y)\<close>: the remainder of \<open>x / y\<close> with the sign of \<open>x\<close>, always exact;
  \<^verbatim>\<open>NaN\<close> for an infinite \<open>x\<close>, for \<open>y = 0\<close> and for a \<^verbatim>\<open>NaN\<close> argument; \<open>x\<close> for an
  infinite \<open>y\<close>.
\<close>

fun Mod :: "float64 \<Rightarrow> float64 \<Rightarrow> float64" where
  "Mod (Finite a) (Finite b) =
     (if b = 0 then NaN else Finite (a - b * of_int (truncInt (a / b))))"
| "Mod (Finite a) PosInf = Finite a"
| "Mod (Finite a) NegInf = Finite a"
| "Mod _ _ = NaN"

text \<open>\<^verbatim>\<open>math.Ceil\<close>.\<close>

fun Ceil :: "float64 \<Rightarrow> float64" where
  "Ceil (Finite a) = Finite (of_int \<lceil>a\<rceil>)"
| "Ceil x = x"

text \<open>
  The conversion \<^verbatim>\<open>int(f)\<close> truncates towards zero. Where the result does not fit
  (also for an infinity and for \<^verbatim>\<open>NaN\<close>) the Go specification leaves the value to the
  implementation; the value taken here is that of the amd64 port, the smallest
  \<^verbatim>\<open>int\<close>.
\<close>

definition float64_to_int :: "float64 \<Rightarrow> 64 word" where
  "float64_to_int f =
     (case f of
        Finite a \<Rightarrow>
          if - (2 ^ 63) \<le> truncInt a \<and> truncInt a < 2 ^ 63 then word_of_int (truncInt a)
          else word_of_int (- (2 ^ 63))
      | _ \<Rightarrow> word_of_int (- (2 ^ 63)))"

subsection \<open>\<^verbatim>\<open>strconv.ParseFloat(s, 64)\<close>\<close>

text \<open>
  \<^verbatim>\<open>special\<close> recognises the infinities and \<^verbatim>\<open>NaN\<close>, returning the value and the
  number of bytes read.
\<close>

definition toLowerAZ :: "char \<Rightarrow> char" where
  "toLowerAZ c = (if 65 \<le> byte c \<and> byte c \<le> 90 then char_of (byte c + 32) else c)"

fun commonPrefixLenIgnoreCase :: "string \<Rightarrow> string \<Rightarrow> nat" where
  "commonPrefixLenIgnoreCase (c # s) (p # prefix) =
     (if toLowerAZ c = p then Suc (commonPrefixLenIgnoreCase s prefix) else 0)"
| "commonPrefixLenIgnoreCase _ _ = 0"

definition special :: "string \<Rightarrow> (float64 \<times> nat) option" where
  "special s =
     (case s of
        [] \<Rightarrow> None
      | c # rest \<Rightarrow>
          if c = CHR ''+'' \<or> c = CHR ''-'' \<or> c = CHR ''i'' \<or> c = CHR ''I'' then
            (let signed = (c = CHR ''+'' \<or> c = CHR ''-'');
                 nsign = (if signed then 1 else 0);
                 n = commonPrefixLenIgnoreCase (if signed then rest else s) ''infinity'';
                 n = (if 3 < n \<and> n < 8 then 3 else n)
             in if n = 3 \<or> n = 8
                then Some (if c = CHR ''-'' then NegInf else PosInf, nsign + n)
                else None)
          else if c = CHR ''n'' \<or> c = CHR ''N'' then
            (if commonPrefixLenIgnoreCase s ''nan'' = 3 then Some (NaN, 3) else None)
          else None)"

text \<open>
  \<^verbatim>\<open>readFloat\<close>: the digit loop. \<open>mantissa\<close> holds every significant digit read (the
  library keeps the first 19 and a flag for the rest, and rounds as if it had them
  all), \<open>nd\<close> their number, \<open>dp\<close> the position of the point.
\<close>

record digits =
  sawdot :: bool
  sawdigits :: bool
  underscores :: bool
  nd :: nat
  dp :: int
  mantissa :: nat

definition isHexLetter :: "char \<Rightarrow> bool" where
  "isHexLetter c = (97 \<le> byte (lower c) \<and> byte (lower c) \<le> 102)"

fun readDigits :: "nat \<Rightarrow> string \<Rightarrow> digits \<Rightarrow> digits \<times> string" where
  "readDigits base [] st = (st, [])"
| "readDigits base (c # cs) st =
     (if c = CHR ''_'' then readDigits base cs (st\<lparr>underscores := True\<rparr>)
      else if c = CHR ''.'' then
        (if sawdot st then (st, c # cs)
         else readDigits base cs (st\<lparr>sawdot := True, dp := int (nd st)\<rparr>))
      else if isDigit c then
        (if c = CHR ''0'' \<and> nd st = 0
         then readDigits base cs (st\<lparr>sawdigits := True, dp := dp st - 1\<rparr>)
         else readDigits base cs
                (st\<lparr>sawdigits := True, nd := nd st + 1,
                    mantissa := mantissa st * base + digitVal c\<rparr>))
      else if base = 16 \<and> isHexLetter c then
        readDigits base cs
          (st\<lparr>sawdigits := True, nd := nd st + 1,
              mantissa := mantissa st * 16 + (byte (lower c) - 97 + 10)\<rparr>)
      else (st, c # cs))"

text \<open>The digits of the exponent; the library stops accumulating at 10000.\<close>

fun readExponent :: "string \<Rightarrow> int \<Rightarrow> bool \<Rightarrow> int \<times> bool \<times> string" where
  "readExponent [] e us = (e, us, [])"
| "readExponent (c # cs) e us =
     (if c = CHR ''_'' then readExponent cs e True
      else if isDigit c then
        readExponent cs (if e < 10000 then e * 10 + int (digitVal c) else e) us
      else (e, us, c # cs))"

text \<open>
  \<^verbatim>\<open>underscoreOK\<close>: an underscore must stand between two digits, or between the
  base prefix and a digit. \<open>saw\<close> is the last byte seen, as in the library: \<open>CHR ''0''\<close>
  for a digit or the base prefix, \<open>CHR ''_''\<close>, \<open>CHR ''!''\<close> for anything else.
\<close>

fun underscoreScan :: "bool \<Rightarrow> string \<Rightarrow> char \<Rightarrow> bool" where
  "underscoreScan hex [] saw = (saw \<noteq> CHR ''_'')"
| "underscoreScan hex (c # cs) saw =
     (if isDigit c \<or> (hex \<and> isHexLetter c) then underscoreScan hex cs (CHR ''0'')
      else if c = CHR ''_'' then (if saw \<noteq> CHR ''0'' then False else underscoreScan hex cs (CHR ''_''))
      else if saw = CHR ''_'' then False
      else underscoreScan hex cs (CHR ''!''))"

definition underscoreOK :: "string \<Rightarrow> bool" where
  "underscoreOK s0 =
     (let s = (case s0 of [] \<Rightarrow> [] | c # r \<Rightarrow> if c = CHR ''-'' \<or> c = CHR ''+'' then r else s0)
      in case s of
           c0 # c1 # r \<Rightarrow>
             if c0 = CHR ''0'' \<and> (lower c1 = CHR ''b'' \<or> lower c1 = CHR ''o'' \<or> lower c1 = CHR ''x'')
             then underscoreScan (lower c1 = CHR ''x'') r (CHR ''0'')
             else underscoreScan False s (CHR ''^'')
         | _ \<Rightarrow> underscoreScan False s (CHR ''^''))"

text \<open>
  \<^verbatim>\<open>readFloat\<close> as a whole. The result is the sign, whether the number is
  hexadecimal, the mantissa, the exponent of the base (10, or 2 for a hexadecimal
  number) and the bytes left unread; \<open>None\<close> is \<^verbatim>\<open>ok == false\<close>.
\<close>

definition readFloat :: "string \<Rightarrow> (bool \<times> bool \<times> nat \<times> int \<times> string) option" where
  "readFloat s =
     (case s of
        [] \<Rightarrow> None
      | c # r \<Rightarrow>
          (let neg = (c = CHR ''-'');
               s1 = (if c = CHR ''+'' \<or> c = CHR ''-'' then r else s);
               hex = (2 < length s1 \<and> s1 ! 0 = CHR ''0'' \<and> lower (s1 ! 1) = CHR ''x'');
               base = (if hex then 16 else 10);
               expChar = (if hex then CHR ''p'' else CHR ''e'');
               (st, s2) = readDigits base (if hex then drop 2 s1 else s1)
                            \<lparr>sawdot = False, sawdigits = False, underscores = False,
                             nd = 0, dp = 0, mantissa = 0\<rparr>;
               dp1 = (if sawdot st then dp st else int (nd st));
               dp2 = (if hex then dp1 * 4 else dp1);
               nd2 = (if hex then int (nd st) * 4 else int (nd st))
           in if \<not> sawdigits st then None
              else (case s2 of
                      [] \<Rightarrow> if hex then None
                            else if underscores st \<and> \<not> underscoreOK s then None
                            else Some (neg, hex, mantissa st, dp2 - nd2, [])
                    | x # s3 \<Rightarrow>
                        if lower x = expChar then
                          (case s3 of
                             [] \<Rightarrow> None
                           | y # s4 \<Rightarrow>
                               (let esign = (if y = CHR ''-'' then - 1 else 1);
                                    s5 = (if y = CHR ''+'' \<or> y = CHR ''-'' then s4 else s3)
                                in case s5 of
                                     [] \<Rightarrow> None
                                   | z # _ \<Rightarrow>
                                       if \<not> isDigit z then None
                                       else (let (e, us, s6) = readExponent s5 0 (underscores st);
                                                 consumed = take (length s - length s6) s
                                             in if us \<and> \<not> underscoreOK consumed then None
                                                else Some (neg, hex, mantissa st,
                                                           dp2 + e * esign - nd2, s6))))
                        else if hex then None
                        else if underscores st
                                \<and> \<not> underscoreOK (take (length s - length s2) s) then None
                        else Some (neg, hex, mantissa st, dp2 - nd2, s2))))"

text \<open>
  \<^verbatim>\<open>ParseFloat\<close>: the whole string must be read; the value is the number read,
  rounded to the nearest \<^verbatim>\<open>float64\<close>; a number that rounds to an infinity is an error
  (\<^verbatim>\<open>ErrRange\<close>). \<open>None\<close> stands for \<^verbatim>\<open>err != nil\<close>.
\<close>

definition ParseFloat :: "string \<Rightarrow> float64 option" where
  "ParseFloat s =
     (case special s of
        Some (v, n) \<Rightarrow> if n = length s then Some v else None
      | None \<Rightarrow>
          (case readFloat s of
             None \<Rightarrow> None
           | Some (neg, hex, m, ex, rest) \<Rightarrow>
               if rest \<noteq> [] then None
               else (let q = of_nat m * (if hex then pow2 ex else pow10 ex)
                     in case roundFloat64 (if neg then - q else q) of
                          Finite a \<Rightarrow> Some (Finite a)
                        | _ \<Rightarrow> None)))"

subsection \<open>The data model\<close>

text \<open>
  The structs of the program. A slice \<^verbatim>\<open>[]*Item\<close> is \<open>None\<close> when it is \<^verbatim>\<open>nil\<close>
  and a list otherwise; a pointer \<^verbatim>\<open>*Item\<close> is \<open>None\<close> when it is \<^verbatim>\<open>nil\<close>. The
  program never writes through these pointers, so sharing is of no matter.
\<close>

record Item =
  ShortDescription :: string
  Price :: string

record Receipt =
  Retailer :: string
  PurchaseDate :: string
  PurchaseTime :: string
  Total :: string
  Items :: "Item option list option"

text \<open>The elements of a slice: a \<^verbatim>\<open>nil\<close> slice has none.\<close>

definition elems :: "'a list option \<Rightarrow> 'a list" where
  "elems sl = (case sl of None \<Rightarrow> [] | Some xs \<Rightarrow> xs)"

text \<open>The response bodies \<^verbatim>\<open>Description\<close>, \<^verbatim>\<open>Id\<close> and \<^verbatim>\<open>Points\<close>, and a response: status and body.\<close>

datatype body = Description string | Id string | Points "64 word"

type_synonym response = "nat \<times> body"

definition StatusOK :: nat where
  "StatusOK = 200"

definition StatusBadRequest :: nat where
  "StatusBadRequest = 400"

text \<open>The map \<^verbatim>\<open>receipts\<close> of all receipts processed.\<close>

type_synonym store = "string \<rightharpoonup> Receipt"

text \<open>The values for calculating how many points a receipt is worth.\<close>

definition VALUE_PER_ALPHANUMERIC_CHAR :: "64 word" where
  "VALUE_PER_ALPHANUMERIC_CHAR = 1"

definition VALUE_PER_TWO_ITEMS :: "64 word" where
  "VALUE_PER_TWO_ITEMS = 5"

definition ROUND_DOLLAR_AMOUNT_BONUS :: "64 word" where
  "ROUND_DOLLAR_AMOUNT_BONUS = 50"

definition MULTIPLE_OF_0_POINT_25_BONUS :: "64 word" where
  "MULTIPLE_OF_0_POINT_25_BONUS = 25"

definition ODD_DAY_BONUS :: "64 word" where
  "ODD_DAY_BONUS = 6"

definition BETWEEN_2PM_AND_4PM_BONUS :: "64 word" where
  "BETWEEN_2PM_AND_4PM_BONUS = 10"

text \<open>
  The untyped constant \<^verbatim>\<open>0.2\<close>; where it multiplies a \<^verbatim>\<open>float64\<close> it is converted to
  the nearest \<^verbatim>\<open>float64\<close>.
\<close>

definition ITEM_PRICE_MULTIPLIER :: float64 where
  "ITEM_PRICE_MULTIPLIER = roundFloat64 (1 / 5)"

subsection \<open>\<^verbatim>\<open>processReceipts\<close>\<close>

text \<open>
  \<^verbatim>\<open>context.ShouldBindJSON(&receipt)\<close> decodes the body with \<^verbatim>\<open>encoding/json\<close> and
  then validates the struct against its \<^verbatim>\<open>binding\<close> tags. The outcome of decoding is
  an input of the model: \<open>None\<close> when the decoder reports an error (a body that is
  not JSON, or a member of the wrong JSON type), and the decoded struct otherwise, in
  which a member that is absent or \<^verbatim>\<open>null\<close> leaves the zero value of its field (the
  empty string, the \<^verbatim>\<open>nil\<close> slice, the \<^verbatim>\<open>nil\<close> pointer).

  The tags are those of the source: \<^verbatim>\<open>binding:"required"\<close> on the five fields of
  \<^verbatim>\<open>Receipt\<close>, which fails on the zero value of a string and on a \<^verbatim>\<open>nil\<close> slice. The
  tag of \<^verbatim>\<open>Items\<close> has no \<^verbatim>\<open>dive\<close>, so the validator does not descend into the
  elements of the slice, and the tags on the fields of \<^verbatim>\<open>Item\<close> are never consulted.
\<close>

datatype bindError = DecodeError | ValidationError

definition requiredString :: "string \<Rightarrow> bool" where
  "requiredString s = (s \<noteq> [])"

definition requiredSlice :: "'a list option \<Rightarrow> bool" where
  "requiredSlice sl = (sl \<noteq> None)"

definition validateReceipt :: "Receipt \<Rightarrow> bool" where
  "validateReceipt receipt =
     (requiredString (Retailer receipt) \<and> requiredString (PurchaseDate receipt)
      \<and> requiredString (PurchaseTime receipt) \<and> requiredString (Total receipt)
      \<and> requiredSlice (Items receipt))"

definition ShouldBindJSON :: "Receipt option \<Rightarrow> bindError + Receipt" where
  "ShouldBindJSON decoded =
     (case decoded of
        None \<Rightarrow> Inl DecodeError
      | Some receipt \<Rightarrow> if validateReceipt receipt then Inr receipt else Inl ValidationError)"

text \<open>
  The handler, with the store passed in and returned. \<open>new_id\<close> is the string that
  \<^verbatim>\<open>xid.New().String()\<close> returns for this request.
\<close>

definition processReceipts :: "Receipt option \<Rightarrow> string \<Rightarrow> store \<Rightarrow> store \<times> response" where
  "processReceipts decoded new_id receipts =
     (case ShouldBindJSON decoded of
        Inl err \<Rightarrow> (receipts, (StatusBadRequest, Description ''The receipt is invalid''))
      | Inr receipt \<Rightarrow> (receipts(new_id \<mapsto> receipt), (StatusOK, Id new_id)))"

subsection \<open>\<^verbatim>\<open>getPoints\<close>\<close>

text \<open>
  The statements of \<^verbatim>\<open>getPoints\<close> after the lookup, one definition for each group of
  lines, each taking the running value of \<^verbatim>\<open>points\<close> and returning the new one.

  Lines 113 and 114: the retailer name and the pairs of items.
\<close>

definition addRetailerPoints :: "string \<Rightarrow> 64 word \<Rightarrow> 64 word" where
  "addRetailerPoints retailer points =
     points + of_nat (length (ReplaceAllString_nonAlnum retailer)) * VALUE_PER_ALPHANUMERIC_CHAR"

definition addItemPairPoints :: "Item option list option \<Rightarrow> 64 word \<Rightarrow> 64 word" where
  "addItemPairPoints items points =
     points + of_nat (length (elems items) div 2) * VALUE_PER_TWO_ITEMS"

text \<open>Lines 123 to 129: the two bonuses on the total.\<close>

definition addTotalBonuses :: "string \<Rightarrow> 64 word \<Rightarrow> 64 word" where
  "addTotalBonuses totalStr points =
     (case ParseFloat totalStr of
        None \<Rightarrow> points
      | Some totalVal \<Rightarrow>
          (let points = (if feq (Mod totalVal (Finite 1)) (Finite 0)
                         then points + ROUND_DOLLAR_AMOUNT_BONUS else points)
           in if feq (Mod totalVal (Finite (1 / 4))) (Finite 0)
              then points + MULTIPLE_OF_0_POINT_25_BONUS else points))"

text \<open>Lines 130 to 133: the day of the purchase date. The index expression can panic.\<close>

definition addOddDayBonus :: "string \<Rightarrow> 64 word \<Rightarrow> panic + 64 word" where
  "addOddDayBonus purchaseDate points =
     (case index (Split purchaseDate (CHR ''-'')) 2 of
        Inl p \<Rightarrow> Inl p
      | Inr seg \<Rightarrow>
          (case Atoi seg of
             None \<Rightarrow> Inr points
           | Some day \<Rightarrow> if go_rem day 2 = 1 then Inr (points + ODD_DAY_BONUS) else Inr points))"

text \<open>Lines 134 to 137: the hour of the purchase time.\<close>

definition addAfternoonBonus :: "string \<Rightarrow> 64 word \<Rightarrow> panic + 64 word" where
  "addAfternoonBonus purchaseTime points =
     (case index (Split purchaseTime (CHR '':'')) 0 of
        Inl p \<Rightarrow> Inl p
      | Inr seg \<Rightarrow>
          (case Atoi seg of
             None \<Rightarrow> Inr points
           | Some hour \<Rightarrow>
               if 14 \<le> hour \<and> hour < 16 then Inr (points + BETWEEN_2PM_AND_4PM_BONUS)
               else Inr points))"

text \<open>
  Lines 142 to 149: the loop over the items, from the first to the last. Reading a
  field through a \<^verbatim>\<open>nil\<close> pointer panics.
\<close>

fun addItemValues :: "Item option list \<Rightarrow> 64 word \<Rightarrow> panic + 64 word" where
  "addItemValues [] points = Inr points"
| "addItemValues (None # items) points = Inl NilPointerDereference"
| "addItemValues (Some item # items) points =
     (if length (TrimSpace (ShortDescription item)) mod 3 = 0
      then (case ParseFloat (Price item) of
              None \<Rightarrow> addItemValues items points
            | Some price \<Rightarrow>
                addItemValues items
                  (points + float64_to_int (Ceil (fmul price ITEM_PRICE_MULTIPLIER))))
      else addItemValues items points)"

text \<open>Lines 106 to 149 in their order; the first panic ends the computation.\<close>

definition computePoints :: "Receipt \<Rightarrow> panic + 64 word" where
  "computePoints receipt =
     (let points = 0;
          points = addRetailerPoints (Retailer receipt) points;
          points = addItemPairPoints (Items receipt) points;
          points = addTotalBonuses (Total receipt) points
      in case addOddDayBonus (PurchaseDate receipt) points of
           Inl p \<Rightarrow> Inl p
         | Inr points \<Rightarrow>
             (case addAfternoonBonus (PurchaseTime receipt) points of
                Inl p \<Rightarrow> Inl p
              | Inr points \<Rightarrow> addItemValues (elems (Items receipt)) points))"

text \<open>
  The handler: \<open>ident\<close> is the path parameter \<^verbatim>\<open>id\<close>. The store is returned as it is left. A
  panic leaves the handler without the response it was to write (the recovery
  middleware of \<^verbatim>\<open>gin.Default()\<close> then answers in its place).
\<close>

definition getPoints :: "string \<Rightarrow> store \<Rightarrow> store \<times> (panic + response)" where
  "getPoints ident receipts =
     (case receipts ident of
        None \<Rightarrow> (receipts, Inr (StatusBadRequest, Description ''No receipt found for that id''))
      | Some receipt \<Rightarrow>
          (case computePoints receipt of
             Inl p \<Rightarrow> (receipts, Inl p)
           | Inr points \<Rightarrow> (receipts, Inr (StatusOK, Points points))))"

subsection \<open>Receipts used as concrete inputs\<close>

text \<open>The receipt of scenario A.\<close>

definition scenarioA :: Receipt where
  "scenarioA =
     \<lparr>Retailer = ''Target'', PurchaseDate = ''2022-01-01'', PurchaseTime = ''13:01'',
      Total = ''35.35'',
      Items = Some
        [Some \<lparr>ShortDescription = ''Mountain Dew 12PK'', Price = ''6.49''\<rparr>,
         Some \<lparr>ShortDescription = ''Emils Cheese Pizza'', Price = ''12.25''\<rparr>,
         Some \<lparr>ShortDescription = ''Knorr Creamy Chicken'', Price = ''1.26''\<rparr>,
         Some \<lparr>ShortDescription = ''Doritos Nacho Cheese'', Price = ''3.35''\<rparr>,
         Some \<lparr>ShortDescription = ''   Klarbrunn 12-PK 12 FL OZ  '', Price = ''12.00''\<rparr>]\<rparr>"

text \<open>A receipt whose purchase date has a single \<^verbatim>\<open>-\<close>.\<close>

definition badDateReceipt :: Receipt where
  "badDateReceipt =
     \<lparr>Retailer = ''Target'', PurchaseDate = ''bad-date'', PurchaseTime = ''13:01'',
      Total = ''35.35'', Items = Some []\<rparr>"

text \<open>A receipt with one item, whose price is negative.\<close>

definition negativePriceReceipt :: Receipt where
  "negativePriceReceipt =
     \<lparr>Retailer = ''T'', PurchaseDate = ''2022-01-02'', PurchaseTime = ''13:01'',
      Total = ''1.01'', Items = Some [Some \<lparr>ShortDescription = ''abc'', Price = ''-100''\<rparr>]\<rparr>"

text \<open>
  What \<^verbatim>\<open>encoding/json\<close> decodes from a body whose \<^verbatim>\<open>items\<close> array is
  \<^verbatim>\<open>[{"price": "1.00"}, null]\<close>: an item without description, and a \<^verbatim>\<open>nil\<close> pointer.
\<close>

definition malformedItemsReceipt :: Receipt where
  "malformedItemsReceipt =
     \<lparr>Retailer = ''Target'', PurchaseDate = ''2022-01-01'', PurchaseTime = ''13:01'',
      Total = ''1.00'',
      Items = Some [Some \<lparr>ShortDescription = [], Price = ''1.00''\<rparr>, None]\<rparr>"

text \<open>A receipt that lacks the retailer, as decoded.\<close>

definition missingRetailerReceipt :: Receipt where
  "missingRetailerReceipt =
     \<lparr>Retailer = [], PurchaseDate = ''2022-01-01'', PurchaseTime = ''13:01'',
      Total = ''35.35'', Items = Some []\<rparr>"

subsection \<open>The format of the purchase time, in the words of the specification\<close>

text \<open>
  The specification gives \<^verbatim>\<open>purchaseTime\<close> the form \<^verbatim>\<open>HH:MM\<close>: two digits, a colon,
  two digits. The program has no such check; the predicate serves to say which
  strings the specification calls malformed.
\<close>

definition isHHMM :: "string \<Rightarrow> bool" where
  "isHHMM s =
     (case s of
        [h1, h2, c, m1, m2] \<Rightarrow>
          isDigit h1 \<and> isDigit h2 \<and> c = CHR '':'' \<and> isDigit m1 \<and> isDigit m2
      | _ \<Rightarrow> False)"

section \<open>Properties\<close>

subsection \<open>Evaluating the arithmetic of \<^verbatim>\<open>float64\<close> on numerals\<close>

lemma bitLength_numeral:
  "bitLength 0 = 0"
  "bitLength (Suc 0) = 1"
  "bitLength (numeral k) = Suc (bitLength (numeral k div 2))"
  by (simp_all add: bitLength.simps[of 0] bitLength.simps[of "Suc 0"]
        bitLength.simps[of "numeral k"])

lemma floor_rat_numeral:
  "\<lfloor>(numeral a / numeral b :: rat)\<rfloor> = numeral a div numeral b"
  "\<lfloor>(- numeral a / numeral b :: rat)\<rfloor> = - numeral a div numeral b"
  using floor_divide_of_int_eq[of "numeral a" "numeral b", where ?'a = rat]
        floor_divide_of_int_eq[of "- numeral a" "numeral b", where ?'a = rat]
  by simp_all

lemma ceiling_rat_numeral:
  "\<lceil>(numeral a / numeral b :: rat)\<rceil> = - (- numeral a div numeral b)"
  "\<lceil>(- numeral a / numeral b :: rat)\<rceil> = - (numeral a div numeral b)"
proof -
  have "- (numeral a / numeral b :: rat) = - numeral a / numeral b" by simp
  then show "\<lceil>(numeral a / numeral b :: rat)\<rceil> = - (- numeral a div numeral b)"
    unfolding ceiling_def by (simp only: floor_rat_numeral)
  have "- (- numeral a / numeral b :: rat) = numeral a / numeral b" by simp
  then show "\<lceil>(- numeral a / numeral b :: rat)\<rceil> = - (numeral a div numeral b)"
    unfolding ceiling_def by (simp only: floor_rat_numeral)
qed

lemmas float_eval = roundFloat64_def ilog2_def pow2_def pow10_def roundHalfEven_def Let_def
  truncInt_def bitLength_numeral floor_rat_numeral ceiling_rat_numeral

lemmas bonus_defs = VALUE_PER_ALPHANUMERIC_CHAR_def VALUE_PER_TWO_ITEMS_def
  ROUND_DOLLAR_AMOUNT_BONUS_def MULTIPLE_OF_0_POINT_25_BONUS_def ODD_DAY_BONUS_def
  BETWEEN_2PM_AND_4PM_BONUS_def StatusOK_def StatusBadRequest_def

lemma multiplier_value:
  "ITEM_PRICE_MULTIPLIER = Finite (3602879701896397 / 18014398509481984)"
  by (simp add: ITEM_PRICE_MULTIPLIER_def float_eval)

subsection \<open>The handlers on a request that fails\<close>

lemma ShouldBindJSON_fails_iff:
  "(\<exists>err. ShouldBindJSON decoded = Inl err) \<longleftrightarrow>
     (decoded = None \<or>
      (\<exists>r. decoded = Some r \<and>
         (Retailer r = [] \<or> PurchaseDate r = [] \<or> PurchaseTime r = [] \<or> Total r = []
          \<or> Items r = None)))"
  by (cases decoded)
     (auto simp: ShouldBindJSON_def validateReceipt_def requiredString_def requiredSlice_def)

text \<open>
  Claim C7. When the body does not bind to a \<^verbatim>\<open>Receipt\<close> (the decoder fails, or a
  required top-level field is missing), \<^verbatim>\<open>processReceipts\<close> answers with status 400 and
  the description \<^verbatim>\<open>The receipt is invalid\<close>, and the store is as it was.
\<close>

theorem processReceipts_rejects_unbound:
  assumes "ShouldBindJSON decoded = Inl err"
  shows "processReceipts decoded new_id receipts
           = (receipts, (400, Description ''The receipt is invalid''))"
  using assms by (simp add: processReceipts_def StatusBadRequest_def)

theorem processReceipts_rejects_unbound_witness:
  "ShouldBindJSON (Some missingRetailerReceipt) = Inl ValidationError
   \<and> processReceipts (Some missingRetailerReceipt) ''c0ffee'' Map.empty
       = (Map.empty, (400, Description ''The receipt is invalid''))"
proof -
  have h: "ShouldBindJSON (Some missingRetailerReceipt) = Inl ValidationError"
    by (simp add: ShouldBindJSON_def validateReceipt_def requiredString_def
          missingRetailerReceipt_def)
  show ?thesis
    using h processReceipts_rejects_unbound [OF h, of "''c0ffee''" Map.empty] by simp
qed

text \<open>
  Claim C9. For an id that is not in the store, \<^verbatim>\<open>getPoints\<close> answers with status 400
  and the description \<^verbatim>\<open>No receipt found for that id\<close>; it does not panic, and the store
  is as it was.
\<close>

theorem getPoints_unknown_id:
  assumes "receipts ident = None"
  shows "getPoints ident receipts
           = (receipts, Inr (400, Description ''No receipt found for that id''))"
  using assms by (simp add: getPoints_def StatusBadRequest_def)

theorem getPoints_unknown_id_witness:
  "(Map.empty :: store) ''c0ffee'' = None
   \<and> getPoints ''c0ffee'' Map.empty
       = (Map.empty, Inr (400, Description ''No receipt found for that id''))"
  using getPoints_unknown_id [of Map.empty "''c0ffee''"] by simp

end
